theory Spec2Isabelle
  imports Main "HOL-Library.Word"
begin

section \<open>Strings\<close>

text \<open>
  A Python \<^verbatim>\<open>str\<close> is a sequence of Unicode code points. The model covers the code points
  U+0000 to U+00FF: a \<^typ>\<open>char\<close> stands for the code point with the same number, so a
  \<^typ>\<open>string\<close> is a text over that range. The range holds ASCII and the seven German
  characters that \<^verbatim>\<open>word_pattern\<close> names. The character tables below (\<^verbatim>\<open>str.lower\<close>, the
  class \<^verbatim>\<open>\w\<close> of the \<^verbatim>\<open>re\<close> module for \<^verbatim>\<open>str\<close> patterns, and the white space of
  \<^verbatim>\<open>str.strip\<close>) are those of Python 3 on that range.
\<close>

definition codepoint :: "char \<Rightarrow> nat" where
  "codepoint c = of_char c"

text \<open>
  \<^verbatim>\<open>str.lower\<close>, one character: A to Z and the capital letters U+00C0 to U+00DE (without the
  multiplication sign U+00D7) move up by 32; every other character stays.
\<close>

definition lower_char :: "char \<Rightarrow> char" where
  "lower_char c =
     (let n = codepoint c
      in if (65 \<le> n \<and> n \<le> 90) \<or> (192 \<le> n \<and> n \<le> 222 \<and> n \<noteq> 215)
         then char_of (n + 32) else c)"

definition lower :: "string \<Rightarrow> string" where
  "lower s = map lower_char s"

text \<open>
  The class \<^verbatim>\<open>\w\<close>: the underscore and every alphanumeric character. Below U+0100 these are
  the digits, the ASCII letters, the letters from U+00C0 on (without U+00D7 and U+00F7),
  the ordinal indicators and the micro sign (U+00AA, U+00BA, U+00B5), the superscript
  digits (U+00B2, U+00B3, U+00B9) and the three vulgar fractions (U+00BC to U+00BE).
\<close>

definition is_word :: "char \<Rightarrow> bool" where
  "is_word c =
     (let n = codepoint c
      in (48 \<le> n \<and> n \<le> 57) \<or> (65 \<le> n \<and> n \<le> 90) \<or> n = 95 \<or> (97 \<le> n \<and> n \<le> 122)
         \<or> n \<in> {170, 178, 179, 181, 185, 186, 188, 189, 190}
         \<or> (192 \<le> n \<and> n \<noteq> 215 \<and> n \<noteq> 247))"

text \<open>White space as \<^verbatim>\<open>str.strip()\<close> removes it.\<close>

definition is_space :: "char \<Rightarrow> bool" where
  "is_space c =
     (let n = codepoint c
      in (9 \<le> n \<and> n \<le> 13) \<or> (28 \<le> n \<and> n \<le> 32) \<or> n = 133 \<or> n = 160)"

definition strip :: "string \<Rightarrow> string" where
  "strip s = rev (dropWhile is_space (rev (dropWhile is_space s)))"


section \<open>The word pattern\<close>

text \<open>
  \<^verbatim>\<open>word_pattern\<close> is a word boundary \<^verbatim>\<open>\b\<close>, one or more characters of a class, and a
  word boundary again. The class is \<^verbatim>\<open>\w\<close> together with seven German characters: the
  small a, o and u with diaeresis (U+00E4, U+00F6, U+00FC), the capital ones (U+00C4,
  U+00D6, U+00DC) and the sharp s (U+00DF), listed here in the order of the pattern.
\<close>

definition german_chars :: "char list" where
  "german_chars = [CHR 0xE4, CHR 0xF6, CHR 0xFC, CHR 0xC4, CHR 0xD6, CHR 0xDC, CHR 0xDF]"

definition in_class :: "char \<Rightarrow> bool" where
  "in_class c = (is_word c \<or> c \<in> set german_chars)"

text \<open>
  \<^verbatim>\<open>\b\<close> at a position: the character before it (\<open>None\<close> at the start of the string) and
  the character after it (none at the end) differ in being word characters, where a
  missing character counts as a non-word character.
\<close>

definition at_boundary :: "char option \<Rightarrow> string \<Rightarrow> bool" where
  "at_boundary prev rest =
     ((case prev of None \<Rightarrow> False | Some p \<Rightarrow> is_word p)
        \<noteq> (case rest of [] \<Rightarrow> False | c # _ \<Rightarrow> is_word c))"

text \<open>
  The greedy \<^verbatim>\<open>+\<close> followed by \<^verbatim>\<open>\b\<close>: \<open>taken\<close> holds the characters consumed so far, the
  last one first, and \<open>rest\<close> the characters after them. The longest run is tried first;
  while the closing \<^verbatim>\<open>\b\<close> fails the run gives one character back, and with no character
  left the match fails.
\<close>

fun backtrack :: "string \<Rightarrow> string \<Rightarrow> string option" where
  "backtrack [] rest = None"
| "backtrack (c # taken) rest =
     (if at_boundary (Some c) rest then Some (rev (c # taken))
      else backtrack taken (c # rest))"

text \<open>One attempt to match the pattern at a position, \<open>prev\<close> being the character before it.\<close>

definition match_at :: "char option \<Rightarrow> string \<Rightarrow> string option" where
  "match_at prev s =
     (if at_boundary prev s
      then backtrack (rev (takeWhile in_class s)) (dropWhile in_class s)
      else None)"

lemma backtrack_Some:
  "backtrack taken rest = Some tok \<Longrightarrow> tok \<noteq> [] \<and> length tok \<le> length taken"
  by (induction taken rest rule: backtrack.induct) (auto split: if_splits)

lemma match_at_Some:
  "match_at prev s = Some tok \<Longrightarrow> tok \<noteq> [] \<and> length tok \<le> length s"
  unfolding match_at_def
  by (auto split: if_splits dest!: backtrack_Some
        intro: order_trans[OF _ length_takeWhile_le])

text \<open>
  \<^verbatim>\<open>findall\<close>: the scan goes from left to right; after a match it goes on where the match
  ended, and where the pattern does not match it moves one character on. A match is never
  empty, so the scan ends.
\<close>

function findall_from :: "char option \<Rightarrow> string \<Rightarrow> string list" where
  "findall_from prev [] = []"
| "findall_from prev (c # cs) =
     (case match_at prev (c # cs) of
        Some tok \<Rightarrow> tok # findall_from (Some (last tok)) (drop (length tok) (c # cs))
      | None \<Rightarrow> findall_from (Some c) cs)"
  by pat_completeness auto
termination
proof (relation "measure (\<lambda>(prev, s). length s)")
  show "wf (measure (\<lambda>(prev, s). length s))" by simp
next
  fix prev :: "char option" and c :: char and cs tok :: string
  assume "match_at prev (c # cs) = Some tok"
  then have "tok \<noteq> []" by (simp add: match_at_Some)
  then show "((Some (last tok), drop (length tok) (c # cs)), prev, c # cs)
               \<in> measure (\<lambda>(prev, s). length s)"
    by (cases tok) auto
next
  fix prev :: "char option" and c :: char and cs :: string
  show "((Some c, cs), prev, c # cs) \<in> measure (\<lambda>(prev, s). length s)" by simp
qed

definition word_pattern_findall :: "string \<Rightarrow> string list" where
  "word_pattern_findall s = findall_from None s"


section \<open>Module state and keyword detection\<close>

text \<open>
  A value as \<^verbatim>\<open>json.load\<close> returns it. An object is the \<^verbatim>\<open>dict\<close> already built: its keys
  are distinct and in insertion order. The program never looks at the value of a number.
\<close>

datatype json =
    JNull
  | JBool bool
  | JNumber int
  | JString string
  | JArray "json list"
  | JObject "(string \<times> json) list"

text \<open>The two module variables that \<^verbatim>\<open>load_keywords\<close> assigns.\<close>

record globals =
  keyword_set :: "string set"
  keywords_raw :: json

text \<open>
  The loop of \<^verbatim>\<open>detect_keywords\<close>, \<open>found\<close> being the list built so far:
  \<^verbatim>\<open>if token in keyword_set and token not in found: found.append(token)\<close>
\<close>

fun detect_loop :: "string set \<Rightarrow> string list \<Rightarrow> string list \<Rightarrow> string list" where
  "detect_loop ks [] found = found"
| "detect_loop ks (token # tokens) found =
     detect_loop ks tokens
       (if token \<in> ks \<and> token \<notin> set found then found @ [token] else found)"

text \<open>
  \<^verbatim>\<open>detect_keywords\<close> reads the module variable \<^verbatim>\<open>keyword_set\<close> and assigns no module
  variable; \<^verbatim>\<open>found\<close> is a fresh list in every call. No operation in it raises.
\<close>

definition detect_keywords :: "globals \<Rightarrow> string \<Rightarrow> string list" where
  "detect_keywords g s = detect_loop (keyword_set g) (word_pattern_findall (lower s)) []"

text \<open>The position of the first occurrence of \<open>x\<close> in \<open>xs\<close> (the length of \<open>xs\<close> if there is none).\<close>

definition first_pos :: "'a list \<Rightarrow> 'a \<Rightarrow> nat" where
  "first_pos xs x = length (takeWhile (\<lambda>y. y \<noteq> x) xs)"


section \<open>Loading the keywords\<close>

text \<open>
  An exception: \<^verbatim>\<open>HTTPException\<close> with its status code and detail, \<^verbatim>\<open>RuntimeError\<close> with
  its message, and any other subclass of \<^verbatim>\<open>Exception\<close> (\<^verbatim>\<open>OSError\<close>, \<^verbatim>\<open>JSONDecodeError\<close>,
  \<^verbatim>\<open>AttributeError\<close>, \<^verbatim>\<open>TypeError\<close> and so on).
\<close>

datatype exn =
    HTTPException int string
  | RuntimeError string
  | OtherException

text \<open>
  \<^verbatim>\<open>json.load(f).get("keywords", [])\<close>: only a \<^verbatim>\<open>dict\<close> has the method \<^verbatim>\<open>get\<close>.
\<close>

fun get_keywords :: "json \<Rightarrow> exn + json" where
  "get_keywords (JObject kvs) =
     Inr (case map_of kvs ''keywords'' of None \<Rightarrow> JArray [] | Some v \<Rightarrow> v)"
| "get_keywords _ = Inl OtherException"

text \<open>\<^verbatim>\<open>k.lower()\<close> for every element of a list: only a \<^verbatim>\<open>str\<close> has the method \<^verbatim>\<open>lower\<close>.\<close>

fun lower_each :: "json list \<Rightarrow> exn + string list" where
  "lower_each [] = Inr []"
| "lower_each (JString k # ks) =
     (case lower_each ks of Inl e \<Rightarrow> Inl e | Inr r \<Rightarrow> Inr (lower k # r))"
| "lower_each (_ # ks) = Inl OtherException"

text \<open>
  \<^verbatim>\<open>{k.lower() for k in keywords_raw}\<close>: a list gives its elements, a \<^verbatim>\<open>str\<close> its
  characters, a \<^verbatim>\<open>dict\<close> its keys; nothing else can be iterated over.
\<close>

fun lower_set :: "json \<Rightarrow> exn + string set" where
  "lower_set (JArray ks) = (case lower_each ks of Inl e \<Rightarrow> Inl e | Inr r \<Rightarrow> Inr (set r))"
| "lower_set (JString s) = Inr (set (map (\<lambda>c. lower [c]) s))"
| "lower_set (JObject kvs) = Inr (set (map (\<lambda>kv. lower (fst kv)) kvs))"
| "lower_set _ = Inl OtherException"

text \<open>
  \<^verbatim>\<open>load_keywords\<close>. \<open>src\<close> is what opening \<^verbatim>\<open>KEYWORDS_PATH\<close> and \<^verbatim>\<open>json.load\<close> give: the
  parsed document, or the exception that either of them raised. An exception anywhere in
  the \<^verbatim>\<open>try\<close> block leads to the \<^verbatim>\<open>except\<close> branch, which assigns both variables anew.
\<close>

definition load_keywords :: "exn + json \<Rightarrow> globals \<Rightarrow> globals" where
  "load_keywords src g =
     (case src of
        Inl e \<Rightarrow> \<lparr>keyword_set = {}, keywords_raw = JArray []\<rparr>
      | Inr doc \<Rightarrow>
          (case get_keywords doc of
             Inl e \<Rightarrow> \<lparr>keyword_set = {}, keywords_raw = JArray []\<rparr>
           | Inr raw \<Rightarrow>
               (case lower_set raw of
                  Inl e \<Rightarrow> \<lparr>keyword_set = {}, keywords_raw = JArray []\<rparr>
                | Inr ks \<Rightarrow> \<lparr>keyword_set = ks, keywords_raw = raw\<rparr>)))"

text \<open>
  \<^verbatim>\<open>get_asr_pipeline\<close>: \<open>loaded\<close> is what the call of \<^verbatim>\<open>pipeline\<close> gives. A failure to set
  the forced decoder ids is logged and changes nothing else.
\<close>

definition get_asr_pipeline :: "exn + 'p \<Rightarrow> exn + 'p" where
  "get_asr_pipeline loaded =
     (case loaded of
        Inl e \<Rightarrow> Inl (RuntimeError ''Model initialization failed'')
      | Inr asr_pipe \<Rightarrow> Inr asr_pipe)"

text \<open>
  The start-up part of \<^verbatim>\<open>lifespan\<close>: \<^verbatim>\<open>load_keywords()\<close>, then \<^verbatim>\<open>get_asr_pipeline()\<close> with
  every exception of it passed over. The result is the exception that leaves the start-up,
  or the module state with which the application starts serving.
\<close>

definition lifespan_startup :: "exn + json \<Rightarrow> exn + 'p \<Rightarrow> globals \<Rightarrow> exn + globals" where
  "lifespan_startup src loaded g =
     (let g' = load_keywords src g
      in case get_asr_pipeline loaded of Inl e \<Rightarrow> Inr g' | Inr asr_pipe \<Rightarrow> Inr g')"


section \<open>Validating an upload\<close>

text \<open>\<^verbatim>\<open>p.rfind(c)\<close>: the highest index at which \<open>c\<close> occurs, or -1.\<close>

fun rfind_from :: "nat \<Rightarrow> string \<Rightarrow> char \<Rightarrow> int \<Rightarrow> int" where
  "rfind_from i [] c r = r"
| "rfind_from i (x # xs) c r = rfind_from (Suc i) xs c (if x = c then int i else r)"

definition rfind :: "string \<Rightarrow> char \<Rightarrow> int" where
  "rfind p c = rfind_from 0 p c (- 1)"

text \<open>
  The loop of \<^verbatim>\<open>os.path.splitext\<close> that passes over leading dots: \<open>True\<close> when it finds a
  character other than a dot before \<open>dotIndex\<close>, where the function returns the split.
\<close>

function skip_leading_dots :: "string \<Rightarrow> nat \<Rightarrow> nat \<Rightarrow> bool" where
  "skip_leading_dots p filenameIndex dotIndex =
     (if filenameIndex < dotIndex
      then (if take 1 (drop filenameIndex p) \<noteq> ''.'' then True
            else skip_leading_dots p (Suc filenameIndex) dotIndex)
      else False)"
  by pat_completeness auto
termination
  by (relation "measure (\<lambda>(p, filenameIndex, dotIndex). dotIndex - filenameIndex)") auto

text \<open>
  \<^verbatim>\<open>os.path.splitext\<close> of \<^verbatim>\<open>posixpath\<close>: the separator is the slash, the extension starts at
  the last dot of the last path component, and leading dots of that component do not
  start an extension.
\<close>

definition splitext :: "string \<Rightarrow> string \<times> string" where
  "splitext p =
     (let sepIndex = rfind p (CHR ''/'');
          dotIndex = rfind p (CHR ''.'')
      in if dotIndex > sepIndex \<and> skip_leading_dots p (nat (sepIndex + 1)) (nat dotIndex)
         then (take (nat dotIndex) p, drop (nat dotIndex) p)
         else (p, []))"

definition ALLOWED_EXT :: "string set" where
  "ALLOWED_EXT = {''.wav'', ''.mp3''}"

text \<open>An \<^verbatim>\<open>UploadFile\<close>: its file name, which may be missing, and the bytes that reading it gives.\<close>

record UploadFile =
  filename :: "string option"
  contents :: "8 word list"

definition validate_file_meta :: "UploadFile \<Rightarrow> exn + unit" where
  "validate_file_meta upload =
     (let ext = lower (snd (splitext (case filename upload of None \<Rightarrow> [] | Some n \<Rightarrow> n)))
      in if ext \<notin> ALLOWED_EXT
         then Inl (HTTPException 400 ''Unsupported file extension'')
         else Inr ())"

text \<open>\<^verbatim>\<open>MAX_FILE_SIZE_MB\<close> is read from the environment when the module is loaded.\<close>

definition ensure_size_limit :: "int \<Rightarrow> int \<Rightarrow> exn + unit" where
  "ensure_size_limit MAX_FILE_SIZE_MB size_bytes =
     (if size_bytes > MAX_FILE_SIZE_MB * 1024 * 1024
      then Inl (HTTPException 413 ''File too large'')
      else Inr ())"


section \<open>The endpoint /transcribe\<close>

text \<open>
  What the handler uses from outside the module: the configured size limit; the
  conversion (writing the upload into a temporary directory, \<^verbatim>\<open>AudioSegment.from_file\<close>
  and the export as WAV), which gives the converted audio or raises; the call of
  \<^verbatim>\<open>pipeline\<close>, which gives the recogniser or raises; the recogniser gives the entry
  \<^verbatim>\<open>"text"\<close> of its result, if there is one, or raises.
\<close>

record 'a env =
  MAX_FILE_SIZE_MB :: int
  convert :: "string \<Rightarrow> 8 word list \<Rightarrow> exn + 'a"
  load_pipeline :: "exn + ('a \<Rightarrow> exn + string option)"

text \<open>The steps of a request that act on the upload or on the collaborators, in order.\<close>

datatype event = ReadUpload | ConvertAudio | LoadModel | RunModel | DetectKeywords

text \<open>The response without its timings, which are wall-clock measurements.\<close>

record TranscribeResponse =
  response_text :: string
  response_keywords :: "string list"

text \<open>The \<^verbatim>\<open>except\<close> clauses of \<^verbatim>\<open>transcribe\<close>.\<close>

fun except_clauses :: "exn \<Rightarrow> exn" where
  "except_clauses (HTTPException status detail) = HTTPException status detail"
| "except_clauses (RuntimeError msg) = HTTPException 500 msg"
| "except_clauses OtherException = HTTPException 500 ''Internal Server Error''"

text \<open>
  The \<^verbatim>\<open>try\<close> block of \<^verbatim>\<open>transcribe\<close>: its result, or the exception raised in it, and the
  steps taken up to there.
\<close>

definition try_block ::
  "'a env \<Rightarrow> globals \<Rightarrow> string \<Rightarrow> 8 word list \<Rightarrow> (exn + TranscribeResponse) \<times> event list" where
  "try_block env g name bytes =
     (case ensure_size_limit (MAX_FILE_SIZE_MB env) (int (length bytes)) of
        Inl e \<Rightarrow> (Inl e, [ReadUpload])
      | Inr _ \<Rightarrow>
     (case convert env name bytes of
        Inl e \<Rightarrow> (Inl e, [ReadUpload, ConvertAudio])
      | Inr wav \<Rightarrow>
     (case get_asr_pipeline (load_pipeline env) of
        Inl e \<Rightarrow> (Inl e, [ReadUpload, ConvertAudio, LoadModel])
      | Inr pipe \<Rightarrow>
     (case pipe wav of
        Inl e \<Rightarrow> (Inl e, [ReadUpload, ConvertAudio, LoadModel, RunModel])
      | Inr result \<Rightarrow>
          (let t = strip (case result of None \<Rightarrow> [] | Some s \<Rightarrow> s)
           in (Inr \<lparr>response_text = t, response_keywords = detect_keywords g t\<rparr>,
               [ReadUpload, ConvertAudio, LoadModel, RunModel, DetectKeywords]))))))"

text \<open>
  \<^verbatim>\<open>transcribe\<close>: the response or the \<^verbatim>\<open>HTTPException\<close> that leaves the handler, and the
  steps taken.
\<close>

definition transcribe ::
  "'a env \<Rightarrow> globals \<Rightarrow> UploadFile \<Rightarrow> (exn + TranscribeResponse) \<times> event list" where
  "transcribe env g file =
     (case filename file of
        None \<Rightarrow> (Inl (HTTPException 400 ''Empty filename''), [])
      | Some name \<Rightarrow>
          if name = [] then (Inl (HTTPException 400 ''Empty filename''), [])
          else (case validate_file_meta file of
                  Inl e \<Rightarrow> (Inl e, [])
                | Inr _ \<Rightarrow>
                    (case try_block env g name (contents file) of
                       (Inl e, steps) \<Rightarrow> (Inl (except_clauses e), steps)
                     | (Inr response, steps) \<Rightarrow> (Inr response, steps))))"


section \<open>Fixtures for the examples\<close>

text \<open>An environment in which the conversion and the loading of the model both fail.\<close>

definition failing_env :: "unit env" where
  "failing_env =
     \<lparr>MAX_FILE_SIZE_MB = 25,
      convert = (\<lambda>name bytes. Inl OtherException),
      load_pipeline = Inl OtherException\<rparr>"

text \<open>
  An environment in which the conversion succeeds and the recogniser returns a fixed text
  with white space around it.
\<close>

definition working_env :: "unit env" where
  "working_env =
     \<lparr>MAX_FILE_SIZE_MB = 25,
      convert = (\<lambda>name bytes. Inr ()),
      load_pipeline = Inr (\<lambda>wav. Inr (Some ''  Der Ball ist rot und blau. ''))\<rparr>"

text \<open>The module state before \<^verbatim>\<open>load_keywords\<close> has run.\<close>

definition initial_globals :: globals where
  "initial_globals = \<lparr>keyword_set = {}, keywords_raw = JArray []\<rparr>"


section \<open>Properties of the character tables\<close>

lemma codepoint_less: "codepoint c < 256"
  by (simp add: codepoint_def)

lemma codepoint_char_of: "n < 256 \<Longrightarrow> codepoint (char_of n) = n"
  by (simp add: codepoint_def)


lemma lower_char_idem: "lower_char (lower_char c) = lower_char c"
  using codepoint_less[of c]
  by (auto simp: lower_char_def Let_def codepoint_char_of)



subsection \<open>Tokens are pieces of the string\<close>

lemma backtrack_prefix:
  "backtrack taken rest = Some tok \<Longrightarrow> \<exists>rest'. rev taken @ rest = tok @ rest'"
  by (induction taken rest rule: backtrack.induct) (auto split: if_splits)

lemma match_at_prefix:
  assumes "match_at prev s = Some tok"
  shows "\<exists>rest'. s = tok @ rest'"
proof -
  from assms have "backtrack (rev (takeWhile in_class s)) (dropWhile in_class s) = Some tok"
    by (simp add: match_at_def split: if_splits)
  from backtrack_prefix[OF this] show ?thesis by simp
qed

lemma findall_from_chars:
  "t \<in> set (findall_from prev s) \<Longrightarrow> set t \<subseteq> set s"
proof (induction prev s rule: findall_from.induct)
  case (1 prev)
  then show ?case by simp
next
  case (2 prev c cs)
  show ?case
  proof (cases "match_at prev (c # cs)")
    case None
    with 2 show ?thesis by auto
  next
    case (Some tok)
    then obtain rest' where split: "c # cs = tok @ rest'"
      using match_at_prefix by blast
    then have rest': "drop (length tok) (c # cs) = rest'" by simp
    from 2(3) Some have "t = tok \<or> t \<in> set (findall_from (Some (last tok)) (drop (length tok) (c # cs)))"
      by simp
    then show ?thesis
    proof
      assume "t = tok"
      with split show ?thesis by (metis set_append Un_upper1)
    next
      assume "t \<in> set (findall_from (Some (last tok)) (drop (length tok) (c # cs)))"
      from "2.IH"(2)[OF Some this] have "set t \<subseteq> set rest'" using rest' by simp
      with split show ?thesis by (metis set_append Un_upper2 subset_trans)
    qed
  qed
qed

lemma lower_fixed:
  assumes "set t \<subseteq> set (lower s)"
  shows "lower t = t"
proof -
  have "lower_char c = c" if "c \<in> set t" for c
  proof -
    from that assms obtain d where "c = lower_char d" by (auto simp: lower_def)
    then show ?thesis by (simp add: lower_char_idem)
  qed
  then show ?thesis by (simp add: lower_def map_idI)
qed

subsection \<open>Lowering commutes with the scan\<close>







subsection \<open>The loop\<close>

lemma set_detect_loop: "set (detect_loop ks tokens found) = set found \<union> (set tokens \<inter> ks)"
  by (induction tokens arbitrary: found) auto


lemma first_pos_less: "x \<in> set pre \<Longrightarrow> first_pos (pre @ rest) x < length pre"
  unfolding first_pos_def
  by (induction pre) auto

lemma first_pos_fresh: "x \<notin> set pre \<Longrightarrow> first_pos (pre @ x # rest) x = length pre"
  unfolding first_pos_def
  by (induction pre) auto

lemma detect_loop_order:
  assumes "set found = set pre \<inter> ks"
    and "sorted_wrt (\<lambda>a b. first_pos (pre @ tokens) a < first_pos (pre @ tokens) b) found"
  shows "sorted_wrt (\<lambda>a b. first_pos (pre @ tokens) a < first_pos (pre @ tokens) b)
           (detect_loop ks tokens found)"
  using assms
proof (induction tokens arbitrary: pre found)
  case Nil
  then show ?case by simp
next
  case (Cons t tokens)
  let ?found' = "if t \<in> ks \<and> t \<notin> set found then found @ [t] else found"
  have s: "set ?found' = set (pre @ [t]) \<inter> ks"
    using Cons.prems(1) by auto
  have o: "sorted_wrt (\<lambda>a b. first_pos ((pre @ [t]) @ tokens) a < first_pos ((pre @ [t]) @ tokens) b) ?found'"
  proof (cases "t \<in> ks \<and> t \<notin> set found")
    case False
    then have "?found' = found" by auto
    with Cons.prems(2) show ?thesis by simp
  next
    case True
    with Cons.prems(1) have fresh: "t \<notin> set pre" by auto
    have "first_pos (pre @ t # tokens) a < first_pos (pre @ t # tokens) t" if "a \<in> set found" for a
    proof -
      from that Cons.prems(1) have "a \<in> set pre" by auto
      then show ?thesis
        using first_pos_less[of a pre "t # tokens"] first_pos_fresh[OF fresh, of tokens] by simp
    qed
    then have "\<forall>a\<in>set found. first_pos (pre @ t # tokens) a < first_pos (pre @ t # tokens) t"
      by blast
    moreover have "sorted_wrt (\<lambda>a b. first_pos (pre @ t # tokens) a < first_pos (pre @ t # tokens) b) found"
      using Cons.prems(2) by simp
    ultimately have "sorted_wrt (\<lambda>a b. first_pos (pre @ t # tokens) a < first_pos (pre @ t # tokens) b) (found @ [t])"
      unfolding sorted_wrt_append by simp
    moreover have "?found' = found @ [t]" using True by simp
    ultimately show ?thesis by simp
  qed
  from Cons.IH[OF s o] show ?case by simp
qed



section \<open>Keyword detection: what the loop returns\<close>

lemma detect_keywords_set:
  "set (detect_keywords g s) = set (word_pattern_findall (lower s)) \<inter> keyword_set g"
  by (simp add: detect_keywords_def set_detect_loop)



text \<open>
  Claim C1 says that a detected keyword is returned in the casing it has in the text, so
  that the index \<open>{england}\<close> and the text \<open>England spielt heute.\<close> give \<open>England\<close>. The
  function lowers the whole text before it tokenises: on this input it returns the
  lowercase token, and the capitalised form is not in its result.
\<close>

theorem detect_keywords_England_lowercased:
  "detect_keywords \<lparr>keyword_set = {''england''}, keywords_raw = JArray [JString ''england'']\<rparr>
     ''England spielt heute.'' = [''england'']
   \<and> ''England'' \<notin> set (detect_keywords
        \<lparr>keyword_set = {''england''}, keywords_raw = JArray [JString ''england'']\<rparr>
        ''England spielt heute.'')"
  by code_simp

text \<open>
  Claim C2: every string that \<open>detect_keywords\<close> returns is equal to its own lowercase form
  and is a member of \<open>keyword_set\<close>.
\<close>

theorem detect_keywords_lowercase_members:
  "k \<in> set (detect_keywords g s) \<Longrightarrow> lower k = k \<and> k \<in> keyword_set g"
proof -
  assume "k \<in> set (detect_keywords g s)"
  then have tok: "k \<in> set (word_pattern_findall (lower s))" and mem: "k \<in> keyword_set g"
    by (simp_all add: detect_keywords_set)
  from tok have "set k \<subseteq> set (lower s)"
    unfolding word_pattern_findall_def by (rule findall_from_chars)
  then have "lower k = k" by (rule lower_fixed)
  with mem show ?thesis by simp
qed

theorem detect_keywords_lowercase_members_witness:
  "''blau'' \<in> set (detect_keywords
       \<lparr>keyword_set = {''blau'', ''Rot''}, keywords_raw = JArray []\<rparr> ''Rot und BLAU'')
   \<and> lower ''blau'' = ''blau''
   \<and> ''blau'' \<in> keyword_set \<lparr>keyword_set = {''blau'', ''Rot''}, keywords_raw = JArray []\<rparr>"
proof -
  have h: "''blau'' \<in> set (detect_keywords
       \<lparr>keyword_set = {''blau'', ''Rot''}, keywords_raw = JArray []\<rparr> ''Rot und BLAU'')"
    by code_simp
  show ?thesis
    using h detect_keywords_lowercase_members[OF h] by simp
qed



text \<open>
  Claim C4: the result is ordered by the position at which each keyword first occurs among
  the tokens of the text: of any two entries of the result, the earlier one has the
  earlier first occurrence. The index \<open>{rot, blau}\<close> and the text
  \<open>Der Ball ist rot und blau.\<close> give \<open>[rot, blau]\<close>, which is not the alphabetical order.
\<close>

theorem detect_keywords_first_occurrence_order:
  "sorted_wrt (\<lambda>a b. first_pos (word_pattern_findall (lower s)) a
                      < first_pos (word_pattern_findall (lower s)) b)
     (detect_keywords g s)
   \<and> detect_keywords \<lparr>keyword_set = {''rot'', ''blau''}, keywords_raw = JArray []\<rparr>
        ''Der Ball ist rot und blau.'' = [''rot'', ''blau'']"
proof
  show "sorted_wrt (\<lambda>a b. first_pos (word_pattern_findall (lower s)) a
                      < first_pos (word_pattern_findall (lower s)) b)
     (detect_keywords g s)"
    using detect_loop_order[of "[]" "[]" "keyword_set g" "word_pattern_findall (lower s)"]
    by (simp add: detect_keywords_def)
next
  show "detect_keywords \<lparr>keyword_set = {''rot'', ''blau''}, keywords_raw = JArray []\<rparr>
        ''Der Ball ist rot und blau.'' = [''rot'', ''blau'']"
    by code_simp
qed





text \<open>
  Claim C7: the result of \<open>detect_keywords\<close> is determined by the text and the keyword
  index: two calls with the same text, in module states that hold the same index, return
  the same list.
\<close>

theorem detect_keywords_deterministic:
  "keyword_set g = keyword_set g' \<Longrightarrow> detect_keywords g s = detect_keywords g' s"
  by (simp add: detect_keywords_def)

theorem detect_keywords_deterministic_witness:
  "keyword_set \<lparr>keyword_set = {''rot''}, keywords_raw = JArray []\<rparr>
     = keyword_set \<lparr>keyword_set = {''rot''}, keywords_raw = JArray [JString ''Rot'']\<rparr>
   \<and> detect_keywords \<lparr>keyword_set = {''rot''}, keywords_raw = JArray []\<rparr> ''Rot und rot''
     = detect_keywords \<lparr>keyword_set = {''rot''}, keywords_raw = JArray [JString ''Rot'']\<rparr>
         ''Rot und rot''"
proof -
  have h: "keyword_set \<lparr>keyword_set = {''rot''}, keywords_raw = JArray []\<rparr>
     = keyword_set \<lparr>keyword_set = {''rot''}, keywords_raw = JArray [JString ''Rot'']\<rparr>"
    by simp
  show ?thesis
    using h detect_keywords_deterministic[OF h, of "''Rot und rot''"] by simp
qed

section \<open>The checks of /transcribe\<close>

lemma ext_audio_txt: "lower (snd (splitext ''audio.txt'')) = ''.txt''"
  by code_simp

lemma txt_not_allowed: "''.txt'' \<notin> ALLOWED_EXT"
  by (simp add: ALLOWED_EXT_def)

lemma transcribe_rejected_extension:
  assumes "filename file = Some name" and "name \<noteq> []"
    and "lower (snd (splitext name)) \<notin> ALLOWED_EXT"
  shows "transcribe env g file = (Inl (HTTPException 400 ''Unsupported file extension''), [])"
  using assms by (simp add: transcribe_def validate_file_meta_def)

lemma transcribe_no_filename:
  assumes "filename file = None \<or> filename file = Some []"
  shows "transcribe env g file = (Inl (HTTPException 400 ''Empty filename''), [])"
  using assms by (auto simp: transcribe_def)

text \<open>
  Claim C8, as amended: an upload with a non-empty file name whose extension, as
  \<open>os.path.splitext\<close> gives it and in lowercase, is not \<open>.wav\<close> or \<open>.mp3\<close> (an empty
  extension included) fails with status 400 and the detail \<open>Unsupported file extension\<close>,
  and no step has been taken on the upload: nothing of it has been read. An upload whose
  file name is missing or empty fails with status 400 and the detail \<open>Empty filename\<close>,
  equally before anything is read. The file name \<open>audio.txt\<close> gives status 400.
\<close>

theorem transcribe_unsupported_extension:
  "(filename file = Some name \<and> name \<noteq> [] \<and> lower (snd (splitext name)) \<notin> ALLOWED_EXT
      \<longrightarrow> transcribe env g file
            = (Inl (HTTPException 400 ''Unsupported file extension''), []))
   \<and> (filename file = None \<or> filename file = Some []
      \<longrightarrow> transcribe env g file = (Inl (HTTPException 400 ''Empty filename''), []))
   \<and> transcribe env g \<lparr>filename = Some ''audio.txt'', contents = bytes\<rparr>
       = (Inl (HTTPException 400 ''Unsupported file extension''), [])"
proof (intro conjI impI)
  assume "filename file = Some name \<and> name \<noteq> [] \<and> lower (snd (splitext name)) \<notin> ALLOWED_EXT"
  then show "transcribe env g file
               = (Inl (HTTPException 400 ''Unsupported file extension''), [])"
    by (simp add: transcribe_rejected_extension)
next
  assume "filename file = None \<or> filename file = Some []"
  then show "transcribe env g file = (Inl (HTTPException 400 ''Empty filename''), [])"
    by (rule transcribe_no_filename)
next
  show "transcribe env g \<lparr>filename = Some ''audio.txt'', contents = bytes\<rparr>
       = (Inl (HTTPException 400 ''Unsupported file extension''), [])"
    by (rule transcribe_rejected_extension[where name = "''audio.txt''"])
       (simp_all add: ext_audio_txt txt_not_allowed)
qed

theorem transcribe_unsupported_extension_witness:
  "transcribe failing_env initial_globals \<lparr>filename = Some ''notes'', contents = [1, 2, 3]\<rparr>
     = (Inl (HTTPException 400 ''Unsupported file extension''), [])
   \<and> transcribe failing_env initial_globals \<lparr>filename = Some ''clip.OGG'', contents = [1, 2, 3]\<rparr>
     = (Inl (HTTPException 400 ''Unsupported file extension''), [])
   \<and> transcribe failing_env initial_globals \<lparr>filename = None, contents = [1, 2, 3]\<rparr>
     = (Inl (HTTPException 400 ''Empty filename''), [])"
proof -
  have e1: "lower (snd (splitext ''notes'')) = []" by code_simp
  have e2: "lower (snd (splitext ''clip.OGG'')) = ''.ogg''" by code_simp
  have n1: "[] \<notin> ALLOWED_EXT" and n2: "''.ogg'' \<notin> ALLOWED_EXT"
    by (simp_all add: ALLOWED_EXT_def)
  show ?thesis
    using e1 e2 n1 n2
      transcribe_unsupported_extension[of "\<lparr>filename = Some ''notes'', contents = [1, 2, 3]\<rparr>"
        "''notes''" failing_env initial_globals]
      transcribe_unsupported_extension[of "\<lparr>filename = Some ''clip.OGG'', contents = [1, 2, 3]\<rparr>"
        "''clip.OGG''" failing_env initial_globals]
      transcribe_unsupported_extension[of "\<lparr>filename = None, contents = [1, 2, 3]\<rparr>"
        "[]" failing_env initial_globals]
    by simp
qed

text \<open>
  Claim C8 as it is stated fails for the empty file name: it has no extension, and the
  request fails with the detail \<open>Empty filename\<close>, not \<open>Unsupported file extension\<close>.
\<close>

theorem transcribe_empty_filename_counterexample:
  "lower (snd (splitext [])) \<notin> ALLOWED_EXT
   \<and> transcribe failing_env initial_globals \<lparr>filename = Some [], contents = []\<rparr>
       = (Inl (HTTPException 400 ''Empty filename''), [])
   \<and> fst (transcribe failing_env initial_globals \<lparr>filename = Some [], contents = []\<rparr>)
       \<noteq> Inl (HTTPException 400 ''Unsupported file extension'')"
proof -
  have "lower (snd (splitext [])) = []" by code_simp
  then show ?thesis
    by (simp add: ALLOWED_EXT_def transcribe_def)
qed

text \<open>
  Claim C9, as amended: an upload that has passed the checks of its file name (the name is
  not empty and its extension is allowed) and whose size in bytes is above the configured
  number of megabytes times 1024 times 1024 fails with status 413 and the detail
  \<open>File too large\<close>; the only step taken is the reading of the upload, so neither the
  conversion nor the recogniser has been called. The size check itself fails exactly
  above that ceiling and passes at and below it.
\<close>

theorem transcribe_file_too_large:
  "(filename file = Some name \<and> name \<noteq> [] \<and> lower (snd (splitext name)) \<in> ALLOWED_EXT
      \<and> int (length (contents file)) > MAX_FILE_SIZE_MB env * 1024 * 1024
      \<longrightarrow> transcribe env g file = (Inl (HTTPException 413 ''File too large''), [ReadUpload]))
   \<and> ensure_size_limit mb size_bytes
       = (if size_bytes > mb * 1024 * 1024 then Inl (HTTPException 413 ''File too large'')
          else Inr ())"
proof (intro conjI impI)
  assume a: "filename file = Some name \<and> name \<noteq> [] \<and> lower (snd (splitext name)) \<in> ALLOWED_EXT
      \<and> int (length (contents file)) > MAX_FILE_SIZE_MB env * 1024 * 1024"
  then have v: "validate_file_meta file = Inr ()"
    by (simp add: validate_file_meta_def)
  from a have t: "try_block env g name (contents file)
                    = (Inl (HTTPException 413 ''File too large''), [ReadUpload])"
    by (simp add: try_block_def ensure_size_limit_def)
  from a v t show "transcribe env g file
                     = (Inl (HTTPException 413 ''File too large''), [ReadUpload])"
    by (simp add: transcribe_def)
next
  show "ensure_size_limit mb size_bytes
       = (if size_bytes > mb * 1024 * 1024 then Inl (HTTPException 413 ''File too large'')
          else Inr ())"
    by (simp add: ensure_size_limit_def)
qed

theorem transcribe_file_too_large_witness:
  "transcribe failing_env initial_globals
       \<lparr>filename = Some ''audio.wav'', contents = replicate 26214401 0\<rparr>
     = (Inl (HTTPException 413 ''File too large''), [ReadUpload])
   \<and> ensure_size_limit 25 26214401 = Inl (HTTPException 413 ''File too large'')
   \<and> ensure_size_limit 25 26214400 = Inr ()"
proof -
  have e: "lower (snd (splitext ''audio.wav'')) = ''.wav''" by code_simp
  have a: "''.wav'' \<in> ALLOWED_EXT" by (simp add: ALLOWED_EXT_def)
  have m: "MAX_FILE_SIZE_MB failing_env = 25" by (simp add: failing_env_def)
  show ?thesis
    using e a m
      transcribe_file_too_large[of "\<lparr>filename = Some ''audio.wav'', contents = replicate 26214401 0\<rparr>"
        "''audio.wav''" failing_env initial_globals 25 26214401]
      transcribe_file_too_large[of "\<lparr>filename = Some ''audio.wav'', contents = replicate 26214401 0\<rparr>"
        "''audio.wav''" failing_env initial_globals 25 26214400]
    by simp
qed

text \<open>
  Claim C9 as it is stated fails for an upload that is too large and has a file name that
  is rejected: the check of the extension comes first, and the request fails with status
  400 before the upload is read.
\<close>

theorem transcribe_oversized_txt_counterexample:
  "int (length (replicate 26214401 (0::8 word))) > MAX_FILE_SIZE_MB failing_env * 1024 * 1024
   \<and> transcribe failing_env initial_globals
        \<lparr>filename = Some ''audio.txt'', contents = replicate 26214401 0\<rparr>
       = (Inl (HTTPException 400 ''Unsupported file extension''), [])
   \<and> fst (transcribe failing_env initial_globals
        \<lparr>filename = Some ''audio.txt'', contents = replicate 26214401 0\<rparr>)
       \<noteq> Inl (HTTPException 413 ''File too large'')"
proof -
  have "transcribe failing_env initial_globals
        \<lparr>filename = Some ''audio.txt'', contents = replicate 26214401 0\<rparr>
       = (Inl (HTTPException 400 ''Unsupported file extension''), [])"
    by (rule transcribe_rejected_extension[where name = "''audio.txt''"])
       (simp_all add: ext_audio_txt txt_not_allowed)
  then show ?thesis
    by (simp add: failing_env_def)
qed


section \<open>Loading the keywords at start-up\<close>

text \<open>
  Claim C10: when opening or parsing the keyword file raises, and equally when the parsed
  document has no method \<open>get\<close> or its keywords cannot be lowered, \<open>load_keywords\<close> leaves
  the empty set and the empty list in the two module variables and raises nothing; the
  start-up goes on with the state that \<open>load_keywords\<close> left, whatever the loading of the
  keywords and of the model did.
\<close>

theorem load_keywords_failure_gives_empty_index:
  "load_keywords (Inl e) g = \<lparr>keyword_set = {}, keywords_raw = JArray []\<rparr>
   \<and> (get_keywords doc = Inl ea
      \<longrightarrow> load_keywords (Inr doc) g = \<lparr>keyword_set = {}, keywords_raw = JArray []\<rparr>)
   \<and> (get_keywords doc = Inr raw \<and> lower_set raw = Inl eb
      \<longrightarrow> load_keywords (Inr doc) g = \<lparr>keyword_set = {}, keywords_raw = JArray []\<rparr>)
   \<and> lifespan_startup src loaded g = Inr (load_keywords src g)"
proof (intro conjI impI)
  show "load_keywords (Inl e) g = \<lparr>keyword_set = {}, keywords_raw = JArray []\<rparr>"
    by (simp add: load_keywords_def)
next
  assume "get_keywords doc = Inl ea"
  then show "load_keywords (Inr doc) g = \<lparr>keyword_set = {}, keywords_raw = JArray []\<rparr>"
    by (simp add: load_keywords_def)
next
  assume "get_keywords doc = Inr raw \<and> lower_set raw = Inl eb"
  then show "load_keywords (Inr doc) g = \<lparr>keyword_set = {}, keywords_raw = JArray []\<rparr>"
    by (simp add: load_keywords_def)
next
  show "lifespan_startup src loaded g = Inr (load_keywords src g)"
    by (simp add: lifespan_startup_def Let_def split: sum.split)
qed

theorem load_keywords_failure_gives_empty_index_witness:
  "load_keywords (Inr (JArray [JString ''Rot'']))
       \<lparr>keyword_set = {''alt''}, keywords_raw = JArray [JString ''Alt'']\<rparr>
     = \<lparr>keyword_set = {}, keywords_raw = JArray []\<rparr>
   \<and> load_keywords (Inr (JObject [(''keywords'', JArray [JString ''Rot'', JNumber 5])]))
       \<lparr>keyword_set = {''alt''}, keywords_raw = JArray [JString ''Alt'']\<rparr>
     = \<lparr>keyword_set = {}, keywords_raw = JArray []\<rparr>"
proof -
  have h1: "get_keywords (JArray [JString ''Rot'']) = Inl OtherException"
    by simp
  have h2: "get_keywords (JObject [(''keywords'', JArray [JString ''Rot'', JNumber 5])])
              = Inr (JArray [JString ''Rot'', JNumber 5])
            \<and> lower_set (JArray [JString ''Rot'', JNumber 5]) = Inl OtherException"
    by simp
  note not_a_dict =
    load_keywords_failure_gives_empty_index[
      where g = "\<lparr>keyword_set = {''alt''}, keywords_raw = JArray [JString ''Alt'']\<rparr>"
        and doc = "JArray [JString ''Rot'']" and ea = OtherException,
      THEN conjunct2, THEN conjunct1, rule_format, OF h1]
  note not_a_str =
    load_keywords_failure_gives_empty_index[
      where g = "\<lparr>keyword_set = {''alt''}, keywords_raw = JArray [JString ''Alt'']\<rparr>"
        and doc = "JObject [(''keywords'', JArray [JString ''Rot'', JNumber 5])]"
        and raw = "JArray [JString ''Rot'', JNumber 5]" and eb = OtherException,
      THEN conjunct2, THEN conjunct2, THEN conjunct1, rule_format, OF h2]
  from not_a_dict not_a_str show ?thesis by (rule conjI)
qed

text \<open>
  The path without a failure, for comparison: the keywords of the document are stored as
  they are, and their lowercase forms make up the index.
\<close>

lemma load_keywords_example:
  "load_keywords (Inr (JObject [(''keywords'', JArray [JString ''Rot'', JString ''Blau''])]))
       initial_globals
     = \<lparr>keyword_set = {''rot'', ''blau''},
        keywords_raw = JArray [JString ''Rot'', JString ''Blau'']\<rparr>"
  by code_simp

text \<open>
  A request that passes every step: the text is stripped, its keywords are detected, and
  all five steps are taken in order.
\<close>

lemma transcribe_example:
  "transcribe working_env \<lparr>keyword_set = {''rot'', ''blau''}, keywords_raw = JArray []\<rparr>
       \<lparr>filename = Some ''audio.MP3'', contents = [82, 73, 70, 70]\<rparr>
     = (Inr \<lparr>response_text = ''Der Ball ist rot und blau.'',
             response_keywords = [''rot'', ''blau'']\<rparr>,
        [ReadUpload, ConvertAudio, LoadModel, RunModel, DetectKeywords])"
  by code_simp

end
